theory Spec2Isabelle
  imports Main
begin

section \<open>Data model of \<open>src/task.ts\<close>\<close>

text \<open>
  A JavaScript string is a list of code units and a file on disk is a list of bytes; both
  are written as \<open>string\<close> here (code units above 255 are outside this model), and
  \<open>utf8_decode\<close> / \<open>utf8_encode\<close> (below) go from one to the other, as the \<open>"utf8"\<close> and
  \<open>{ encoding: "utf-8" }\<close> arguments of the source do.
\<close>

text \<open>\<open>Profiler.CoverageRange\<close>, \<open>Profiler.FunctionCoverage\<close>, \<open>Profiler.ScriptCoverage\<close> and
  \<open>Profiler.TakePreciseCoverageReturnType\<close> of the inspector protocol.\<close>

record CoverageRange =
  startOffset :: nat
  endOffset :: nat
  count :: nat

record FunctionCoverage =
  functionName :: string
  ranges :: "CoverageRange list"
  isBlockCoverage :: bool

record ScriptCoverage =
  scriptId :: string
  url :: string
  functions_cov :: "FunctionCoverage list"

record ProcessCov =
  result :: "ScriptCoverage list"

text \<open>\<open>EncodedSourceMap\<close>: the entries of \<open>sources\<close> are \<open>string | null\<close>.\<close>

record EncodedSourceMap =
  sources :: "string option list"
  mappings :: string

text \<open>\<open>type V8ToIstanbulSources\<close> (lines 32-36).\<close>

record V8ToIstanbulSources =
  source :: string
  originalSource :: string
  sourceMap :: "EncodedSourceMap option"

text \<open>\<open>type CypressV8CoverageOptions\<close> (lines 20-30), the module variable \<open>_options\<close>.
  The fields \<open>include\<close> and \<open>exclude\<close> are named \<open>include_globs\<close> and \<open>exclude_globs\<close>.\<close>

record CypressV8CoverageOptions =
  coverageDir :: string
  baseUrls :: "string list"
  srcDir :: string
  buildDir :: string
  includeUncovered :: bool
  include_globs :: "string list"
  exclude_globs :: "string list"
  includeV8Patterns :: "string list"
  excludeV8Patterns :: "string list"


subsection \<open>The file system\<close>

text \<open>
  A path holds a regular file (its bytes), a directory, or nothing. The operations are those
  of \<open>node:fs\<close> that the source calls; each failure of theirs is a value of \<open>exn\<close>.
  Permissions and the existence of parent directories are outside this model.
\<close>

datatype node = File string | Dir

type_synonym filesystem = "string \<rightharpoonup> node"

datatype exn =
    ENOENT string
  | EISDIR string
  | SyntaxError string
  | TypeError string
  | ProtocolError

definition existsSync :: "filesystem \<Rightarrow> string \<Rightarrow> bool" where
  "existsSync F p = (F p \<noteq> None)"

definition readBytes :: "filesystem \<Rightarrow> string \<Rightarrow> exn + string" where
  "readBytes F p =
     (case F p of
        None \<Rightarrow> Inl (ENOENT p)
      | Some Dir \<Rightarrow> Inl (EISDIR p)
      | Some (File b) \<Rightarrow> Inr b)"

definition writeBytes :: "filesystem \<Rightarrow> string \<Rightarrow> string \<Rightarrow> exn + filesystem" where
  "writeBytes F p b =
     (case F p of
        Some Dir \<Rightarrow> Inl (EISDIR p)
      | _ \<Rightarrow> Inr (F(p \<mapsto> File b)))"

definition unlinkSync :: "filesystem \<Rightarrow> string \<Rightarrow> exn + filesystem" where
  "unlinkSync F p =
     (case F p of
        None \<Rightarrow> Inl (ENOENT p)
      | Some Dir \<Rightarrow> Inl (EISDIR p)
      | Some (File b) \<Rightarrow> Inr (F(p := None)))"


subsection \<open>Libraries and the platform\<close>

text \<open>
  The packages the source imports are not part of the repository. Each function of theirs
  that the source calls is a field of the record \<open>libs\<close>; the theorems below hold for every
  value of it, or name the property of a library they rely on.
  \<^item> \<open>minimatch url pattern\<close>: the \<open>minimatch\<close> package.
  \<^item> \<open>mergeProcessCovs\<close>: \<open>@bcoe/v8-coverage\<close>.
  \<^item> \<open>fg patterns cwd ignore\<close>: \<open>fast-glob\<close>, run on a file system.
  \<^item> \<open>v8ToIstanbul F path functions sources\<close>: the body of the \<open>try\<close> of \<open>convertCoverage\<close>
    (\<open>v8ToIstanbul(...)\<close>, \<open>load\<close>, \<open>applyCoverage\<close>, \<open>toIstanbul\<close>); \<open>None\<close> when any of them
    throws. It reads the file system, since \<open>load\<close> reads a source that was not passed in.
  \<^item> \<open>createCoverageMap\<close>, \<open>cm_merge\<close> (\<open>CoverageMap.merge\<close>) and \<open>cm_files\<close>
    (\<open>CoverageMap.files\<close>): \<open>istanbul-lib-coverage\<close>; \<open>cm_empty\<close> is the object \<open>{}\<close>.
    The type \<open>'cm\<close> stands for a coverage map and for its JSON data.
  \<^item> \<open>path_join\<close>, \<open>path_resolve\<close>: \<open>node:path\<close>, on the list of their arguments.
  \<^item> \<open>URL_pathname u\<close>: \<open>new URL(u).pathname\<close>; \<open>None\<close> when the constructor throws.
  \<^item> \<open>utf8_decode\<close>, \<open>utf8_encode\<close>: the encoding argument of the \<open>fs\<close> calls.
  \<^item> \<open>JSON_parse_*\<close>: \<open>JSON.parse\<close> with the cast that the source applies to its result
    (\<open>as EncodedSourceMap\<close>, \<open>as Profiler.TakePreciseCoverageReturnType\<close>); \<open>None\<close> when
    \<open>JSON.parse\<close> throws. A text that parses to a value of another shape is outside this
    model. \<open>JSON_stringify_*\<close>: \<open>JSON.stringify\<close>.
\<close>

record 'cm libs =
  minimatch :: "string \<Rightarrow> string \<Rightarrow> bool"
  mergeProcessCovs :: "ProcessCov list \<Rightarrow> ProcessCov"
  fg :: "filesystem \<Rightarrow> string list \<Rightarrow> string \<Rightarrow> string list \<Rightarrow> string list"
  v8ToIstanbul ::
    "filesystem \<Rightarrow> string \<Rightarrow> FunctionCoverage list \<Rightarrow> V8ToIstanbulSources \<Rightarrow> 'cm option"
  createCoverageMap :: "'cm \<Rightarrow> 'cm"
  cm_empty :: 'cm
  cm_merge :: "'cm \<Rightarrow> 'cm \<Rightarrow> 'cm"
  cm_files :: "'cm \<Rightarrow> string list"
  path_join :: "string list \<Rightarrow> string"
  path_resolve :: "string list \<Rightarrow> string"
  URL_pathname :: "string \<Rightarrow> string option"
  utf8_decode :: "string \<Rightarrow> string"
  utf8_encode :: "string \<Rightarrow> string"
  JSON_parse_cov :: "string \<Rightarrow> ProcessCov option"
  JSON_stringify_cov :: "ProcessCov \<Rightarrow> string"
  JSON_parse_cm :: "string \<Rightarrow> 'cm option"
  JSON_stringify_cm :: "'cm \<Rightarrow> string"
  JSON_parse_map :: "string \<Rightarrow> EncodedSourceMap option"

text \<open>\<open>fs.readFile(p, { encoding: "utf-8" })\<close> and \<open>readFileSync(p, "utf8")\<close>.\<close>

definition readFile :: "'cm libs \<Rightarrow> filesystem \<Rightarrow> string \<Rightarrow> exn + string" where
  "readFile L F p =
     (case readBytes F p of Inl e \<Rightarrow> Inl e | Inr b \<Rightarrow> Inr (utf8_decode L b))"

text \<open>\<open>writeFileSync(p, text, "utf8")\<close>.\<close>

definition writeFileSync :: "'cm libs \<Rightarrow> filesystem \<Rightarrow> string \<Rightarrow> string \<Rightarrow> exn + filesystem" where
  "writeFileSync L F p text = writeBytes F p (utf8_encode L text)"

subsection \<open>Strings\<close>

text \<open>\<open>String.prototype.startsWith\<close> and \<open>String.prototype.includes\<close>.\<close>

fun startsWith :: "string \<Rightarrow> string \<Rightarrow> bool" where
  "startsWith s [] = True"
| "startsWith [] (p # ps) = False"
| "startsWith (c # cs) (p # ps) = (c = p \<and> startsWith cs ps)"

fun str_includes :: "string \<Rightarrow> string \<Rightarrow> bool" where
  "str_includes [] t = (t = [])"
| "str_includes (c # cs) t = (startsWith (c # cs) t \<or> str_includes cs t)"

subsection \<open>The process state\<close>

text \<open>
  The lines that \<open>error\<close> (lines 40-42) prints on the console, one constructor for each
  message of the source, with the path it interpolates. The \<open>debug\<close> channel is not
  modelled, and neither is \<open>v8CoverageBrowserHandler\<close> (lines 48-100), which sets the handle
  \<open>cdp\<close> from timers.
\<close>

datatype diag =
    MapFileError string
  | ConvertFailed string
  | ConvertDetail
  | LostBeforeStart
  | LostBeforeTake

text \<open>
  The handle \<open>cdp\<close> (line 46) is unset or a session. A session is modelled by how each
  call of the Profiler domain settles: \<open>False\<close> or \<open>None\<close> is a rejected promise.
\<close>

record session =
  Profiler_enable :: bool
  Profiler_startPreciseCoverage :: bool
  Profiler_takePreciseCoverage :: "ProcessCov option"
  Profiler_stopPreciseCoverage :: bool

record world =
  fs :: filesystem
  console :: "diag list"
  cdp :: "session option"


text \<open>What a hook resolves to: \<open>null\<close>, or the reply of the protocol.\<close>

datatype ret = Null | Reply

section \<open>The script filter\<close>

text \<open>\<open>filterV8CoverageResult\<close> (lines 102-121).\<close>

definition filterV8CoverageResult ::
  "'cm libs \<Rightarrow> CypressV8CoverageOptions \<Rightarrow> ScriptCoverage \<Rightarrow> bool" where
  "filterV8CoverageResult L opts coverage =
     (if \<not> list_ex (\<lambda>u. startsWith (url coverage) u) (baseUrls opts) then False
      else if str_includes (url coverage) ''/node_modules/'' then False
      else
        (let isIncluded = list_ex (\<lambda>pattern. minimatch L (url coverage) pattern)
                            (includeV8Patterns opts);
             isExcluded = list_ex (\<lambda>pattern. minimatch L (url coverage) pattern)
                            (excludeV8Patterns opts)
         in isIncluded \<and> \<not> isExcluded))"

section \<open>Conversion\<close>

text \<open>The template literal \<open>`${source}`\<close> of an entry of \<open>sources\<close>: \<open>null\<close> prints as
  \<open>null\<close>.\<close>

definition template_str :: "string option \<Rightarrow> string" where
  "template_str entry = (case entry of None \<Rightarrow> ''null'' | Some s \<Rightarrow> s)"

text \<open>
  \<open>getSources\<close> (lines 174-201). The \<open>try\<close> covers the read and the parse of the map
  file and the rewriting of its \<open>sources\<close>; the read of the built file is after it.
  The result is the console lines printed and the value returned or the exception thrown.
\<close>

definition getSources ::
  "'cm libs \<Rightarrow> CypressV8CoverageOptions \<Rightarrow> filesystem \<Rightarrow> string \<Rightarrow>
     diag list \<times> (exn + V8ToIstanbulSources)" where
  "getSources L opts F filePath =
     (let mapFilePath = filePath @ ''.map'';
          tried =
            (case readFile L F mapFilePath of
               Inl e \<Rightarrow> ([MapFileError filePath], None)
             | Inr mapFile \<Rightarrow>
                 (case JSON_parse_map L mapFile of
                    None \<Rightarrow> ([MapFileError filePath], None)
                  | Some sm \<Rightarrow>
                      ([], Some (sm\<lparr>sources :=
                         map (\<lambda>src. Some (path_resolve L [buildDir opts @ template_str src]))
                           (sources sm)\<rparr>))))
      in case readFile L F filePath of
           Inl e \<Rightarrow> (fst tried, Inl e)
         | Inr jsFileCode \<Rightarrow>
             (fst tried,
              Inr \<lparr>source = jsFileCode, originalSource = jsFileCode, sourceMap = snd tried\<rparr>))"

text \<open>\<open>convertCoverage\<close> (lines 212-231): \<open>None\<close> is the \<open>undefined\<close> that the function
  returns after its \<open>catch\<close>.\<close>

definition convertCoverage ::
  "'cm libs \<Rightarrow> filesystem \<Rightarrow> string \<Rightarrow> FunctionCoverage list \<Rightarrow> V8ToIstanbulSources \<Rightarrow>
     diag list \<times> 'cm option" where
  "convertCoverage L F filePath fns srcs =
     (case v8ToIstanbul L F filePath fns srcs of
        Some istanbulCoverage \<Rightarrow> ([], Some istanbulCoverage)
      | None \<Rightarrow> ([ConvertFailed filePath, ConvertDetail], None))"

text \<open>The callback of the first \<open>Promise.all\<close> of \<open>generateCoverage\<close> (lines 248-267), on
  the coverage map it merges into.\<close>

definition convertScript ::
  "'cm libs \<Rightarrow> CypressV8CoverageOptions \<Rightarrow> filesystem \<Rightarrow> ScriptCoverage \<Rightarrow> 'cm \<Rightarrow>
     diag list \<times> (exn + 'cm)" where
  "convertScript L opts F script coverageMap =
     (case URL_pathname L (url script) of
        None \<Rightarrow> ([], Inl (TypeError (url script)))
      | Some jsFileName \<Rightarrow>
          (let filePath = path_resolve L [buildDir opts @ jsFileName] in
           case getSources L opts F filePath of
             (log, Inl e) \<Rightarrow> (log, Inl e)
           | (log, Inr srcs) \<Rightarrow>
               if source srcs = [] then (log, Inr coverageMap)
               else
                 (case convertCoverage L F filePath (functions_cov script) srcs of
                    (log', None) \<Rightarrow> (log @ log', Inr coverageMap)
                  | (log', Some istanbulCoverage) \<Rightarrow>
                      (log @ log', Inr (cm_merge L coverageMap istanbulCoverage)))))"

text \<open>
  \<open>Promise.all\<close> over the scripts. Every callback runs, also after one of them has thrown
  (a promise is not cancelled); the callbacks are taken in the order of the list. The state
  is the console lines, the coverage map, and the first rejection.
\<close>

fun convertAll ::
  "'cm libs \<Rightarrow> CypressV8CoverageOptions \<Rightarrow> filesystem \<Rightarrow> ScriptCoverage list \<Rightarrow>
     diag list \<times> 'cm \<times> exn option \<Rightarrow> diag list \<times> 'cm \<times> exn option" where
  "convertAll L opts F [] st = st"
| "convertAll L opts F (script # rest) (log, coverageMap, rejected) =
     (case convertScript L opts F script coverageMap of
        (log', Inl e) \<Rightarrow>
          convertAll L opts F rest
            (log @ log', coverageMap, (case rejected of None \<Rightarrow> Some e | Some e0 \<Rightarrow> Some e0))
      | (log', Inr coverageMap') \<Rightarrow>
          convertAll L opts F rest (log @ log', coverageMap', rejected))"

section \<open>Untested files\<close>

text \<open>The constant \<open>coverage\<close> of lines 140-158, for a file and its text
  (\<open>original\<close> is \<open>originalSource\<close>), and the callback of \<open>untestedFiles.map\<close>
  (lines 137-161). The length of a JavaScript string is its number of code units.\<close>

definition emptyReportCoverage :: "string \<Rightarrow> string \<Rightarrow> ScriptCoverage" where
  "emptyReportCoverage file original =
     \<lparr>scriptId = ''0'', url = file,
      functions_cov =
        [\<lparr>functionName = ''(empty-report)'',
          ranges = [\<lparr>startOffset = 0, endOffset = length original, count = 0\<rparr>],
          isBlockCoverage = True\<rparr>]\<rparr>"

definition emptyReport :: "'cm libs \<Rightarrow> filesystem \<Rightarrow> string \<Rightarrow> exn + ProcessCov" where
  "emptyReport L F file =
     (case readFile L F file of
        Inl e \<Rightarrow> Inl e
      | Inr original \<Rightarrow> Inr \<lparr>result = [emptyReportCoverage file original]\<rparr>)"

text \<open>\<open>Promise.all\<close> of promises that print nothing: the values, or the first rejection.\<close>

fun promise_all :: "(exn + 'a) list \<Rightarrow> exn + 'a list" where
  "promise_all [] = Inr []"
| "promise_all (Inl e # ps) = Inl e"
| "promise_all (Inr v # ps) = (case promise_all ps of Inl e \<Rightarrow> Inl e | Inr vs \<Rightarrow> Inr (v # vs))"

text \<open>The files that \<open>fg\<close> finds, resolved against \<open>srcDir\<close> (lines 126-130).\<close>

definition allFiles :: "'cm libs \<Rightarrow> CypressV8CoverageOptions \<Rightarrow> filesystem \<Rightarrow> string list" where
  "allFiles L opts F =
     map (\<lambda>file. path_resolve L [srcDir opts, file])
       (fg L F (include_globs opts) (srcDir opts) (exclude_globs opts))"

text \<open>\<open>getUntestedFileCoverage\<close> (lines 123-167).\<close>

definition getUntestedFileCoverage ::
  "'cm libs \<Rightarrow> CypressV8CoverageOptions \<Rightarrow> filesystem \<Rightarrow> string list \<Rightarrow> exn + ProcessCov" where
  "getUntestedFileCoverage L opts F testedFiles =
     (let untestedFiles = filter (\<lambda>file. file \<notin> set testedFiles) (allFiles L opts F);
          merged = \<lparr>result = []\<rparr>
      in case promise_all (map (emptyReport L F) untestedFiles) of
           Inl e \<Rightarrow> Inl e
         | Inr coverages \<Rightarrow> Inr (mergeProcessCovs L (merged # coverages)))"

text \<open>The callback of the second \<open>Promise.all\<close> of \<open>generateCoverage\<close> (lines 276-286), and
  the \<open>Promise.all\<close> itself; this callback does not throw.\<close>

definition convertUntested ::
  "'cm libs \<Rightarrow> filesystem \<Rightarrow> ScriptCoverage \<Rightarrow> diag list \<times> 'cm \<Rightarrow> diag list \<times> 'cm" where
  "convertUntested L F script st =
     (case convertCoverage L F (url script) (functions_cov script)
             \<lparr>source = [], originalSource = [], sourceMap = None\<rparr> of
        (log', None) \<Rightarrow> (fst st @ log', snd st)
      | (log', Some istanbulCoverage) \<Rightarrow> (fst st @ log', cm_merge L (snd st) istanbulCoverage))"

definition convertUntestedAll ::
  "'cm libs \<Rightarrow> filesystem \<Rightarrow> ScriptCoverage list \<Rightarrow> diag list \<times> 'cm \<Rightarrow> diag list \<times> 'cm" where
  "convertUntestedAll L F scripts st = foldl (\<lambda>acc script. convertUntested L F script acc) st scripts"

text \<open>\<open>generateCoverage\<close> (lines 240-291).\<close>

definition generateCoverage ::
  "'cm libs \<Rightarrow> CypressV8CoverageOptions \<Rightarrow> filesystem \<Rightarrow> ProcessCov \<Rightarrow> 'cm \<Rightarrow>
     diag list \<times> (exn + 'cm)" where
  "generateCoverage L opts F coverage existingIstanbulCoverage =
     (case convertAll L opts F (result coverage)
             ([], createCoverageMap L existingIstanbulCoverage, None) of
        (log, coverageMap, Some e) \<Rightarrow> (log, Inl e)
      | (log, coverageMap, None) \<Rightarrow>
          if includeUncovered opts then
            (case getUntestedFileCoverage L opts F (cm_files L coverageMap) of
               Inl e \<Rightarrow> (log, Inl e)
             | Inr untestedCoverage \<Rightarrow>
                 (case convertUntestedAll L F (result untestedCoverage) (log, coverageMap) of
                    (log', coverageMap') \<Rightarrow> (log', Inr coverageMap')))
          else (log, Inr coverageMap))"


section \<open>The hooks\<close>

text \<open>The two artifacts of a spec file.\<close>

definition rawArtifact :: "'cm libs \<Rightarrow> CypressV8CoverageOptions \<Rightarrow> string \<Rightarrow> string" where
  "rawArtifact L opts testFileName = path_join L [coverageDir opts, testFileName @ ''_v8.json'']"

definition canonicalArtifact :: "'cm libs \<Rightarrow> CypressV8CoverageOptions \<Rightarrow> string \<Rightarrow> string" where
  "canonicalArtifact L opts testFileName = path_join L [coverageDir opts, testFileName @ ''.json'']"

text \<open>\<open>v8CoverageBefore\<close> (lines 299-321).\<close>

definition v8CoverageBefore ::
  "'cm libs \<Rightarrow> CypressV8CoverageOptions \<Rightarrow> string \<Rightarrow> world \<Rightarrow> (exn + ret) \<times> world" where
  "v8CoverageBefore L opts testFileName w =
     (let oldV8CoverageFile = rawArtifact L opts testFileName in
      case (if existsSync (fs w) oldV8CoverageFile then unlinkSync (fs w) oldV8CoverageFile
            else Inr (fs w)) of
        Inl e \<Rightarrow> (Inl e, w)
      | Inr F1 \<Rightarrow>
          (let oldIstanbulCoverageFile = canonicalArtifact L opts testFileName in
           case (if existsSync F1 oldIstanbulCoverageFile then unlinkSync F1 oldIstanbulCoverageFile
                 else Inr F1) of
             Inl e \<Rightarrow> (Inl e, w\<lparr>fs := F1\<rparr>)
           | Inr F2 \<Rightarrow> (Inr Null, w\<lparr>fs := F2\<rparr>)))"



text \<open>\<open>v8CoverageAfter\<close> (lines 391-432).\<close>

definition v8CoverageAfter ::
  "'cm libs \<Rightarrow> CypressV8CoverageOptions \<Rightarrow> string \<Rightarrow> world \<Rightarrow> (exn + ret) \<times> world" where
  "v8CoverageAfter L opts testFileName w =
     (let v8CoverageFile = rawArtifact L opts testFileName in
      if \<not> existsSync (fs w) v8CoverageFile then (Inr Null, w)
      else
        (case (case readFile L (fs w) v8CoverageFile of
                 Inl e \<Rightarrow> Inl e
               | Inr text \<Rightarrow>
                   (case JSON_parse_cov L text of
                      None \<Rightarrow> Inl (SyntaxError v8CoverageFile)
                    | Some c \<Rightarrow> Inr c)) of
           Inl e \<Rightarrow> (Inl e, w)
         | Inr v8Coverage \<Rightarrow>
             (let existingIstanbulCoverageFile = canonicalArtifact L opts testFileName in
              case (if existsSync (fs w) existingIstanbulCoverageFile
                    then (case readFile L (fs w) existingIstanbulCoverageFile of
                            Inl e \<Rightarrow> Inl e
                          | Inr text \<Rightarrow>
                              (case JSON_parse_cm L text of
                                 None \<Rightarrow> Inl (SyntaxError existingIstanbulCoverageFile)
                               | Some m \<Rightarrow> Inr m))
                    else Inr (cm_empty L)) of
                Inl e \<Rightarrow> (Inl e, w)
              | Inr existingIstanbulCoverage \<Rightarrow>
                  (case generateCoverage L opts (fs w) v8Coverage existingIstanbulCoverage of
                     (log, Inl e) \<Rightarrow> (Inl e, w\<lparr>console := console w @ log\<rparr>)
                   | (log, Inr istanbulCoverage) \<Rightarrow>
                       (case writeFileSync L (fs w) existingIstanbulCoverageFile
                               (JSON_stringify_cm L istanbulCoverage) of
                          Inl e \<Rightarrow> (Inl e, w\<lparr>console := console w @ log\<rparr>)
                        | Inr F1 \<Rightarrow>
                            (case unlinkSync F1 v8CoverageFile of
                               Inl e \<Rightarrow> (Inl e, w\<lparr>fs := F1, console := console w @ log\<rparr>)
                             | Inr F2 \<Rightarrow>
                                 (Inr Null, w\<lparr>fs := F2, console := console w @ log\<rparr>)))))))"


section \<open>Registration\<close>





section \<open>Reading the artifacts\<close>


definition existingCoverage :: "'cm libs \<Rightarrow> filesystem \<Rightarrow> string \<Rightarrow> 'cm option" where
  "existingCoverage L F p =
     (case F p of
        None \<Rightarrow> Some (cm_empty L)
      | Some Dir \<Rightarrow> None
      | Some (File b) \<Rightarrow> JSON_parse_cm L (utf8_decode L b))"





definition one_range :: "ScriptCoverage \<Rightarrow> bool" where
  "one_range s =
     (length (functions_cov s) = 1 \<and> (\<forall>f \<in> set (functions_cov s). length (ranges f) = 1))"

definition merge_keeps_whole_file_records :: "'cm libs \<Rightarrow> bool" where
  "merge_keeps_whole_file_records L =
     (\<forall>ps. distinct (map url (concat (map result ps))) \<longrightarrow>
           (\<forall>s \<in> set (concat (map result ps)). one_range s) \<longrightarrow>
        distinct (map url (result (mergeProcessCovs L ps))) \<and>
        (\<lambda>s. (url s, functions_cov s)) ` set (result (mergeProcessCovs L ps)) =
        (\<lambda>s. (url s, functions_cov s)) ` set (concat (map result ps)))"


section \<open>An example installation\<close>

text \<open>
  Stand-ins for the libraries, on which the theorems below are instantiated: an application
  built into \<open>/code/dist\<close> from \<open>/code/src\<close> and served from \<open>http://localhost:5173/\<close>,
  with the process running in \<open>/code\<close>. They are small on purpose; no theorem about the
  program depends on them.
\<close>

type_synonym demo_map = "(string \<times> nat) list"

definition endsWith :: "string \<Rightarrow> string \<Rightarrow> bool" where
  "endsWith s t = startsWith (rev s) (rev t)"

definition demo_minimatch :: "string \<Rightarrow> string \<Rightarrow> bool" where
  "demo_minimatch u pattern =
     (if pattern = ''**/assets/**/*.js'' then str_includes u ''/assets/'' \<and> endsWith u ''.js''
      else if pattern = ''**/__cypress/**'' then str_includes u ''/__cypress/''
      else if pattern = ''**/__/**'' then str_includes u ''/__/''
      else False)"

definition demo_glob :: "string \<Rightarrow> string \<Rightarrow> bool" where
  \<comment> \<open>the patterns \<open>**/*suffix\<close>\<close>
  "demo_glob file pattern = (startsWith pattern ''**/*'' \<and> endsWith file (drop 4 pattern))"

definition is_file :: "filesystem \<Rightarrow> string \<Rightarrow> bool" where
  "is_file F p = (case F p of Some (File b) \<Rightarrow> True | _ \<Rightarrow> False)"

definition demo_fg :: "filesystem \<Rightarrow> string list \<Rightarrow> string \<Rightarrow> string list \<Rightarrow> string list" where
  "demo_fg F patterns cwd ignore =
     filter (\<lambda>file. is_file F (cwd @ ''/'' @ file) \<and> list_ex (demo_glob file) patterns
                    \<and> \<not> list_ex (demo_glob file) ignore)
       [''App.tsx'', ''App.spec.tsx'', ''Cafe.ts'', ''Unused.tsx'', ''Vendor.js'']"

fun split_path :: "string \<Rightarrow> string \<Rightarrow> string list" where
  "split_path seg [] = [rev seg]"
| "split_path seg (c # cs) =
     (if c = CHR ''/'' then rev seg # split_path [] cs else split_path (c # seg) cs)"

fun normalize_segments :: "string list \<Rightarrow> string list \<Rightarrow> string list" where
  "normalize_segments done [] = rev done"
| "normalize_segments done (s # ss) =
     (if s = [] \<or> s = ''.'' then normalize_segments done ss
      else if s = ''..'' then normalize_segments (tl done) ss
      else normalize_segments (s # done) ss)"

fun demo_join :: "string list \<Rightarrow> string" where
  "demo_join [] = ''.''"
| "demo_join [p] = p"
| "demo_join (p # ps) = p @ ''/'' @ demo_join ps"

definition demo_resolve :: "string list \<Rightarrow> string" where
  "demo_resolve parts =
     (let p = demo_join parts;
          absolute = (if startsWith p ''/'' then p else ''/code/'' @ p)
      in concat (map (\<lambda>s. CHR ''/'' # s) (normalize_segments [] (split_path [] absolute))))"

definition demo_pathname :: "string \<Rightarrow> string option" where
  "demo_pathname u =
     (if startsWith u ''http://localhost:5173/'' then Some (drop 21 u) else None)"

text \<open>UTF-8 of the code points below \<open>0x100\<close>: one byte below \<open>0x80\<close>, else two.\<close>

fun demo_utf8_decode :: "string \<Rightarrow> string" where
  "demo_utf8_decode [] = []"
| "demo_utf8_decode [b] = [b]"
| "demo_utf8_decode (b # b' # bs) =
     (if b = CHR 0xC3 then char_of (of_char b' + (64 :: nat)) # demo_utf8_decode bs
      else if b = CHR 0xC2 then b' # demo_utf8_decode bs
      else b # demo_utf8_decode (b' # bs))"

fun demo_utf8_encode :: "string \<Rightarrow> string" where
  "demo_utf8_encode [] = []"
| "demo_utf8_encode (c # cs) =
     (if of_char c < (128 :: nat) then [c]
      else if of_char c < (192 :: nat) then [CHR 0xC2, c]
      else [CHR 0xC3, char_of (of_char c - (64 :: nat))]) @ demo_utf8_encode cs"

text \<open>The converter: it loads the source when none is passed in, fails on a source that
  names a map file (none of them exists here), and reports the sum of the counts for the
  first source of the map, or for the file itself.\<close>

definition demo_v8ToIstanbul ::
  "filesystem \<Rightarrow> string \<Rightarrow> FunctionCoverage list \<Rightarrow> V8ToIstanbulSources \<Rightarrow> demo_map option" where
  "demo_v8ToIstanbul F path fns srcs =
     (case (if source srcs \<noteq> [] then Inr (source srcs)
            else (case readBytes F path of Inl e \<Rightarrow> Inl e | Inr b \<Rightarrow> Inr (demo_utf8_decode b))) of
        Inl e \<Rightarrow> None
      | Inr rawSource \<Rightarrow>
          if sourceMap srcs = None \<and> str_includes rawSource ''sourceMappingURL='' then None
          else
            Some [(case sourceMap srcs of
                     Some sm \<Rightarrow> (case sources sm of Some s # rest \<Rightarrow> s | _ \<Rightarrow> path)
                   | None \<Rightarrow> path,
                   sum_list (map count (concat (map ranges fns))))])"

definition index_js :: ScriptCoverage where
  "index_js =
     \<lparr>scriptId = ''7'', url = ''http://localhost:5173/assets/index.js'',
      functions_cov =
        [\<lparr>functionName = ''App'',
          ranges = [\<lparr>startOffset = 0, endOffset = 100, count = 5\<rparr>],
          isBlockCoverage = True\<rparr>]\<rparr>"

definition gone_js :: ScriptCoverage where
  "gone_js = index_js\<lparr>url := ''http://localhost:5173/assets/gone.js''\<rparr>"

definition extension_js :: ScriptCoverage where
  "extension_js = index_js\<lparr>url := ''chrome-extension://abc/assets/index.js''\<rparr>"

definition demo_stringify_cov :: "ProcessCov \<Rightarrow> string" where
  "demo_stringify_cov c = concat (map (\<lambda>s. url s @ '';'') (result c))"

fun entries :: "string \<Rightarrow> string \<Rightarrow> string list" where
  \<comment> \<open>the entries of a text in which \<open>;\<close> ends each entry\<close>
  "entries entry [] = []"
| "entries entry (c # cs) =
     (if c = CHR '';'' then rev entry # entries [] cs else entries (c # entry) cs)"

definition demo_script :: "string \<Rightarrow> ScriptCoverage option" where
  "demo_script u =
     (if u = url index_js then Some index_js
      else if u = url gone_js then Some gone_js
      else None)"

definition demo_parse_cov :: "string \<Rightarrow> ProcessCov option" where
  "demo_parse_cov text =
     (case those (map demo_script (entries [] text)) of
        None \<Rightarrow> None
      | Some scripts \<Rightarrow> Some \<lparr>result = scripts\<rparr>)"

definition demo_stringify_cm :: "demo_map \<Rightarrow> string" where
  "demo_stringify_cm m = concat (map (\<lambda>entry. fst entry @ '';'') m)"

definition demo_parse_cm :: "string \<Rightarrow> demo_map option" where
  "demo_parse_cm text = (if text = [] then Some [] else None)"

definition demo_parse_map :: "string \<Rightarrow> EncodedSourceMap option" where
  "demo_parse_map text =
     (if text = ''sources: ../../src/App.tsx''
      then Some \<lparr>sources = [Some ''../../src/App.tsx''], mappings = ''AAAA''\<rparr>
      else None)"

definition demo_libs :: "demo_map libs" where
  "demo_libs =
     \<lparr>minimatch = demo_minimatch,
      mergeProcessCovs = (\<lambda>ps. \<lparr>result = concat (map result ps)\<rparr>),
      fg = demo_fg,
      v8ToIstanbul = demo_v8ToIstanbul,
      createCoverageMap = (\<lambda>m. m),
      cm_empty = [],
      cm_merge = (\<lambda>a b. a @ b),
      cm_files = (\<lambda>m. remdups (map fst m)),
      path_join = demo_join,
      path_resolve = demo_resolve,
      URL_pathname = demo_pathname,
      utf8_decode = demo_utf8_decode,
      utf8_encode = demo_utf8_encode,
      JSON_parse_cov = demo_parse_cov,
      JSON_stringify_cov = demo_stringify_cov,
      JSON_parse_cm = demo_parse_cm,
      JSON_stringify_cm = demo_stringify_cm,
      JSON_parse_map = demo_parse_map\<rparr>"

text \<open>The options of \<open>cypressV8Coverage(on, config)\<close> with
  \<open>baseUrl: "http://localhost:5173/"\<close>, as \<open>register\<close> resolves them.\<close>

definition demo_opts :: CypressV8CoverageOptions where
  "demo_opts =
     \<lparr>coverageDir = ''/code/cypress-coverage'',
      baseUrls = [''http://localhost:5173/''],
      srcDir = ''/code/src'',
      buildDir = ''/code/dist'',
      includeUncovered = True,
      include_globs = [''**/*.ts'', ''**/*.tsx'', ''**/*.js'', ''**/*.jsx''],
      exclude_globs = [''**/*.spec.ts'', ''**/*.spec.tsx'', ''**/*.spec.jsx'',
                       ''**/*.spec.js'', ''**/*.d.ts''],
      includeV8Patterns = [''**/assets/**/*.js''],
      excludeV8Patterns = [''**/__cypress/**'', ''**/__/**'']\<rparr>"

text \<open>A build with its map, two sources, and the raw artifact of \<open>App.cy.ts\<close>.\<close>

definition demo_fs :: filesystem where
  "demo_fs =
     map_of
       [(''/code/dist/assets/index.js'', File ''console.log(1)''),
        (''/code/dist/assets/index.js.map'', File ''sources: ../../src/App.tsx''),
        (''/code/src/App.tsx'', File ''export default 1''),
        (''/code/src/Unused.tsx'', File ''export const u = 0''),
        (''/code/cypress-coverage'', Dir),
        (''/code/cypress-coverage/App.cy.ts_v8.json'',
           File ''http://localhost:5173/assets/index.js;'')]"

definition demo_world :: world where
  "demo_world = \<lparr>fs = demo_fs, console = [], cdp = None\<rparr>"



text \<open>The same, with a raw artifact that also lists a script \<open>gone.js\<close>, which the build
  directory does not hold.\<close>

definition gone_world :: world where
  "gone_world =
     \<lparr>fs = demo_fs(''/code/cypress-coverage/App.cy.ts_v8.json'' \<mapsto>
             File ''http://localhost:5173/assets/gone.js;http://localhost:5173/assets/index.js;''),
      console = [], cdp = None\<rparr>"

text \<open>A source tree with one file, \<open>caf\<close> and \<open>U+00E9\<close> in UTF-8: five bytes, four code
  units.\<close>

definition cafe_fs :: filesystem where
  "cafe_fs = map_of [(''/code/src/Cafe.ts'', File [CHR ''c'', CHR ''a'', CHR ''f'', CHR 0xC3, CHR 0xA9])]"


section \<open>Properties\<close>

subsection \<open>Strings\<close>

lemma startsWith_iff: "startsWith s p \<longleftrightarrow> (\<exists>r. s = p @ r)"
  by (induction s p rule: startsWith.induct) auto

lemma str_includes_iff: "str_includes s t \<longleftrightarrow> (\<exists>a b. s = a @ t @ b)"
proof (induction s)
  case Nil
  then show ?case by auto
next
  case (Cons c cs)
  show ?case
  proof
    assume "str_includes (c # cs) t"
    then consider "startsWith (c # cs) t" | "str_includes cs t" by auto
    then show "\<exists>a b. c # cs = a @ t @ b"
    proof cases
      case 1
      then obtain r where "c # cs = t @ r" by (auto simp: startsWith_iff)
      then have "c # cs = [] @ t @ r" by simp
      then show ?thesis by blast
    next
      case 2
      then obtain a b where "cs = a @ t @ b" using Cons.IH by blast
      then have "c # cs = (c # a) @ t @ b" by simp
      then show ?thesis by blast
    qed
  next
    assume "\<exists>a b. c # cs = a @ t @ b"
    then obtain a b where ab: "c # cs = a @ t @ b" by blast
    show "str_includes (c # cs) t"
    proof (cases a)
      case Nil
      with ab have "startsWith (c # cs) t" by (auto simp: startsWith_iff)
      then show ?thesis by simp
    next
      case (Cons x a')
      with ab have "cs = a' @ t @ b" by simp
      then have "str_includes cs t" using Cons.IH by blast
      then show ?thesis by simp
    qed
  qed
qed

subsection \<open>The script filter\<close>

text \<open>
  C5. The script filter accepts a raw script record if and only if its URL starts with one
  of the configured base URLs, does not contain \<open>/node_modules/\<close>, matches at least one
  glob of \<open>includeV8Patterns\<close> and matches no glob of \<open>excludeV8Patterns\<close>. In particular a
  script whose URL starts with no configured base URL is rejected, whatever its coverage.
\<close>

theorem filterV8CoverageResult_iff:
  "(filterV8CoverageResult L opts coverage \<longleftrightarrow>
      (\<exists>base \<in> set (baseUrls opts). \<exists>rest. url coverage = base @ rest) \<and>
      \<not> (\<exists>before after. url coverage = before @ ''/node_modules/'' @ after) \<and>
      (\<exists>pattern \<in> set (includeV8Patterns opts). minimatch L (url coverage) pattern) \<and>
      (\<forall>pattern \<in> set (excludeV8Patterns opts). \<not> minimatch L (url coverage) pattern)) \<and>
   (\<not> (\<exists>base \<in> set (baseUrls opts). \<exists>rest. url coverage = base @ rest) \<longrightarrow>
      \<not> filterV8CoverageResult L opts coverage)"
proof -
  have base: "list_ex (\<lambda>u. startsWith (url coverage) u) (baseUrls opts) \<longleftrightarrow>
                (\<exists>base \<in> set (baseUrls opts). \<exists>rest. url coverage = base @ rest)"
    by (simp add: list_ex_iff startsWith_iff)
  have vendor: "str_includes (url coverage) ''/node_modules/'' \<longleftrightarrow>
                  (\<exists>before after. url coverage = before @ ''/node_modules/'' @ after)"
    by (rule str_includes_iff)
  have included: "list_ex (\<lambda>pattern. minimatch L (url coverage) pattern) (includeV8Patterns opts) \<longleftrightarrow>
                    (\<exists>pattern \<in> set (includeV8Patterns opts). minimatch L (url coverage) pattern)"
    by (simp add: list_ex_iff)
  have excluded: "\<not> list_ex (\<lambda>pattern. minimatch L (url coverage) pattern) (excludeV8Patterns opts) \<longleftrightarrow>
                    (\<forall>pattern \<in> set (excludeV8Patterns opts). \<not> minimatch L (url coverage) pattern)"
    by (simp add: list_ex_iff)
  have "filterV8CoverageResult L opts coverage \<longleftrightarrow>
          list_ex (\<lambda>u. startsWith (url coverage) u) (baseUrls opts) \<and>
          \<not> str_includes (url coverage) ''/node_modules/'' \<and>
          list_ex (\<lambda>pattern. minimatch L (url coverage) pattern) (includeV8Patterns opts) \<and>
          \<not> list_ex (\<lambda>pattern. minimatch L (url coverage) pattern) (excludeV8Patterns opts)"
    by (simp add: filterV8CoverageResult_def Let_def)
  then show ?thesis
    unfolding base vendor included excluded by blast
qed

theorem filterV8CoverageResult_iff_witness:
  "filterV8CoverageResult demo_libs demo_opts index_js \<and>
   \<not> filterV8CoverageResult demo_libs demo_opts extension_js"
proof -
  have base: "\<exists>base \<in> set (baseUrls demo_opts). \<exists>rest. url index_js = base @ rest"
    unfolding startsWith_iff [symmetric] list_ex_iff [symmetric] by code_simp
  have vendor: "\<not> (\<exists>before after. url index_js = before @ ''/node_modules/'' @ after)"
    unfolding str_includes_iff [symmetric] by code_simp
  have inc: "\<exists>pattern \<in> set (includeV8Patterns demo_opts).
               minimatch demo_libs (url index_js) pattern"
    unfolding list_ex_iff [symmetric] by code_simp
  have exc: "\<forall>pattern \<in> set (excludeV8Patterns demo_opts).
               \<not> minimatch demo_libs (url index_js) pattern"
    unfolding list_all_iff [symmetric] by code_simp
  have other: "\<not> (\<exists>base \<in> set (baseUrls demo_opts). \<exists>rest. url extension_js = base @ rest)"
    unfolding startsWith_iff [symmetric] list_ex_iff [symmetric] by code_simp
  from base vendor inc exc other show ?thesis
    using filterV8CoverageResult_iff [of demo_libs demo_opts index_js]
      filterV8CoverageResult_iff [of demo_libs demo_opts extension_js]
    by blast
qed

subsection \<open>The hooks\<close>








lemma demo_paths:
  "rawArtifact demo_libs demo_opts ''App.cy.ts'' = ''/code/cypress-coverage/App.cy.ts_v8.json''"
  "canonicalArtifact demo_libs demo_opts ''App.cy.ts'' = ''/code/cypress-coverage/App.cy.ts.json''"
  by code_simp+

text \<open>
  C9. For every spec name and every file system, once the before-hook has returned neither
  the raw artifact \<open>{coverageDir}/{specFileName}_v8.json\<close> nor the canonical artifact
  \<open>{coverageDir}/{specFileName}.json\<close> exists, whether or not they were there before. The
  hook returns whenever neither path is a directory (on which \<open>unlinkSync\<close> throws), and
  then it changes nothing else.
\<close>

theorem v8CoverageBefore_purges:
  "(v8CoverageBefore L opts name w = (Inr r, w') \<longrightarrow>
      \<not> existsSync (fs w') (rawArtifact L opts name) \<and>
      \<not> existsSync (fs w') (canonicalArtifact L opts name)) \<and>
   (fs w (rawArtifact L opts name) \<noteq> Some Dir \<and>
    fs w (canonicalArtifact L opts name) \<noteq> Some Dir \<longrightarrow>
      v8CoverageBefore L opts name w =
        (Inr Null,
         w\<lparr>fs := (fs w)(rawArtifact L opts name := None,
                         canonicalArtifact L opts name := None)\<rparr>))"
proof (intro conjI impI)
  assume run: "v8CoverageBefore L opts name w = (Inr r, w')"
  then show "\<not> existsSync (fs w') (rawArtifact L opts name)"
    by (auto simp: v8CoverageBefore_def Let_def existsSync_def unlinkSync_def
        split: if_splits sum.splits option.splits node.splits)
  from run show "\<not> existsSync (fs w') (canonicalArtifact L opts name)"
    by (auto simp: v8CoverageBefore_def Let_def existsSync_def unlinkSync_def
        split: if_splits sum.splits option.splits node.splits)
next
  assume "fs w (rawArtifact L opts name) \<noteq> Some Dir \<and>
          fs w (canonicalArtifact L opts name) \<noteq> Some Dir"
  then show "v8CoverageBefore L opts name w =
        (Inr Null,
         w\<lparr>fs := (fs w)(rawArtifact L opts name := None,
                         canonicalArtifact L opts name := None)\<rparr>)"
    by (auto simp: v8CoverageBefore_def Let_def existsSync_def unlinkSync_def fun_upd_idem
        split: if_splits sum.splits option.splits node.splits)
qed

theorem v8CoverageBefore_purges_witness:
  "existsSync (fs (demo_world\<lparr>fs := (fs demo_world)
       (''/code/cypress-coverage/App.cy.ts.json'' \<mapsto> File ''stale'')\<rparr>))
     ''/code/cypress-coverage/App.cy.ts_v8.json'' \<and>
   existsSync (fs (demo_world\<lparr>fs := (fs demo_world)
       (''/code/cypress-coverage/App.cy.ts.json'' \<mapsto> File ''stale'')\<rparr>))
     ''/code/cypress-coverage/App.cy.ts.json'' \<and>
   \<not> existsSync (fs (snd (v8CoverageBefore demo_libs demo_opts ''App.cy.ts''
      (demo_world\<lparr>fs := (fs demo_world)
         (''/code/cypress-coverage/App.cy.ts.json'' \<mapsto> File ''stale'')\<rparr>))))
     ''/code/cypress-coverage/App.cy.ts_v8.json'' \<and>
   \<not> existsSync (fs (snd (v8CoverageBefore demo_libs demo_opts ''App.cy.ts''
      (demo_world\<lparr>fs := (fs demo_world)
         (''/code/cypress-coverage/App.cy.ts.json'' \<mapsto> File ''stale'')\<rparr>))))
     ''/code/cypress-coverage/App.cy.ts.json''"
proof -
  let ?w = "demo_world\<lparr>fs := (fs demo_world)
         (''/code/cypress-coverage/App.cy.ts.json'' \<mapsto> File ''stale'')\<rparr>"
  have raw: "fs ?w (rawArtifact demo_libs demo_opts ''App.cy.ts'') =
               Some (File ''http://localhost:5173/assets/index.js;'')"
    unfolding demo_paths by code_simp
  have canon: "fs ?w (canonicalArtifact demo_libs demo_opts ''App.cy.ts'') = Some (File ''stale'')"
    unfolding demo_paths by simp
  note purge = v8CoverageBefore_purges [where L = demo_libs and opts = demo_opts
      and name = "''App.cy.ts''" and w = ?w]
  from raw canon purge
  have run: "v8CoverageBefore demo_libs demo_opts ''App.cy.ts'' ?w =
        (Inr Null,
         ?w\<lparr>fs := (fs ?w)(rawArtifact demo_libs demo_opts ''App.cy.ts'' := None,
                         canonicalArtifact demo_libs demo_opts ''App.cy.ts'' := None)\<rparr>)"
    by simp
  from purge [where r = Null and w' = "snd (v8CoverageBefore demo_libs demo_opts ''App.cy.ts'' ?w)"]
    run
  have "\<not> existsSync (fs (snd (v8CoverageBefore demo_libs demo_opts ''App.cy.ts'' ?w)))
           (rawArtifact demo_libs demo_opts ''App.cy.ts'') \<and>
        \<not> existsSync (fs (snd (v8CoverageBefore demo_libs demo_opts ''App.cy.ts'' ?w)))
           (canonicalArtifact demo_libs demo_opts ''App.cy.ts'')"
    by simp
  moreover from raw canon
  have "existsSync (fs ?w) (rawArtifact demo_libs demo_opts ''App.cy.ts'') \<and>
        existsSync (fs ?w) (canonicalArtifact demo_libs demo_opts ''App.cy.ts'')"
    by (simp add: existsSync_def)
  ultimately show ?thesis
    unfolding demo_paths by blast
qed









subsection \<open>The source resolver\<close>



subsection \<open>Conversion failures\<close>

text \<open>
  A script whose URL parses and whose built file can be read never makes the callback of
  \<open>generateCoverage\<close> throw: a failing map file and a failing \<open>v8ToIstanbul\<close> are caught.
\<close>

lemma convertScript_returns:
  assumes "URL_pathname L (url script) = Some jsFileName"
    and "readFile L F (path_resolve L [buildDir opts @ jsFileName]) = Inr jsFileCode"
  shows "\<exists>log coverageMap'.
           convertScript L opts F script coverageMap = (log, Inr coverageMap')"
  using assms
  by (auto simp: convertScript_def getSources_def convertCoverage_def Let_def
      split: option.splits sum.splits)

text \<open>
  A script whose built file cannot be read makes the callback throw, and with it
  \<open>generateCoverage\<close>, whatever the other scripts are.
\<close>

lemma convertScript_unreadable:
  assumes "URL_pathname L (url script) = Some jsFileName"
    and "readFile L F (path_resolve L [buildDir opts @ jsFileName]) = Inl e"
  shows "\<exists>log. convertScript L opts F script coverageMap = (log, Inl e)"
  using assms by (simp add: convertScript_def getSources_def Let_def)

lemma convertAll_rejected:
  "\<exists>e'. snd (snd (convertAll L opts F scripts (log, coverageMap, Some e))) = Some e'"
proof (induction scripts arbitrary: log coverageMap e)
  case Nil
  then show ?case by simp
next
  case (Cons script scripts)
  then show ?case
    by (cases "convertScript L opts F script coverageMap") (auto split: sum.splits)
qed

lemma convertAll_rejects:
  assumes "script \<in> set scripts"
    and "\<And>coverageMap. \<exists>log. convertScript L opts F script coverageMap = (log, Inl e)"
  shows "\<exists>e'. snd (snd (convertAll L opts F scripts (log, coverageMap, rejected))) = Some e'"
  using assms(1)
proof (induction scripts arbitrary: log coverageMap rejected)
  case Nil
  then show ?case by simp
next
  case (Cons a scripts)
  show ?case
  proof (cases "script = a")
    case True
    from assms(2) obtain log' where "convertScript L opts F a coverageMap = (log', Inl e)"
      unfolding True by blast
    then show ?thesis
      using convertAll_rejected [of L opts F scripts "log @ log'" coverageMap]
      by (cases rejected) auto
  next
    case False
    with Cons.prems have "script \<in> set scripts" by simp
    from Cons.IH [OF this] show ?thesis
      by (cases "convertScript L opts F a coverageMap") (auto split: sum.splits)
  qed
qed

lemma generateCoverage_rejects:
  assumes "script \<in> set (result coverage)"
    and "URL_pathname L (url script) = Some jsFileName"
    and "readFile L F (path_resolve L [buildDir opts @ jsFileName]) = Inl e"
  shows "\<exists>log e'. generateCoverage L opts F coverage existing = (log, Inl e')"
proof -
  obtain log cm rejected where
    all: "convertAll L opts F (result coverage) ([], createCoverageMap L existing, None) =
            (log, cm, rejected)"
    by (metis prod_cases3)
  from convertAll_rejects [OF assms(1) convertScript_unreadable [OF assms(2,3)],
      of "[]" "createCoverageMap L existing" None] all
  obtain e' where "rejected = Some e'" by auto
  with all show ?thesis by (simp add: generateCoverage_def)
qed

text \<open>
  C1. The claim is that a failure to convert one script (an unreadable built file, a failing
  sourcemap analysis, a \<open>v8ToIstanbul\<close> error) only drops that script, and that the hook
  completes without raising. For an unreadable built file the code does otherwise: whenever
  the raw artifact lists a script whose built file cannot be read, the after-hook raises,
  from the read of the built file in \<open>getSources\<close>; it writes no canonical artifact, also
  for the scripts that can be converted, and leaves the raw artifact where it is.
\<close>

theorem unreadable_built_file_raises:
  assumes raw: "fs w (rawArtifact L opts name) = Some (File b)"
    and parse: "JSON_parse_cov L (utf8_decode L b) = Some v8Coverage"
    and existing: "existingCoverage L (fs w) (canonicalArtifact L opts name) = Some existing"
    and script: "script \<in> set (result v8Coverage)"
    and pathname: "URL_pathname L (url script) = Some jsFileName"
    and unreadable: "readFile L (fs w) (path_resolve L [buildDir opts @ jsFileName]) = Inl e"
  shows "\<exists>e' log. v8CoverageAfter L opts name w = (Inl e', w\<lparr>console := console w @ log\<rparr>)"
proof -
  from generateCoverage_rejects [OF script pathname unreadable, of existing]
  obtain log e' where
    gen: "generateCoverage L opts (fs w) v8Coverage existing = (log, Inl e')"
    by blast
  have read_raw: "readFile L (fs w) (rawArtifact L opts name) = Inr (utf8_decode L b)"
    using raw by (simp add: readFile_def readBytes_def)
  have "v8CoverageAfter L opts name w = (Inl e', w\<lparr>console := console w @ log\<rparr>)"
  proof (cases "fs w (canonicalArtifact L opts name)")
    case None
    with existing have "existing = cm_empty L"
      by (simp add: existingCoverage_def)
    with gen have "generateCoverage L opts (fs w) v8Coverage (cm_empty L) = (log, Inl e')"
      by simp
    with None raw show ?thesis
      by (simp add: v8CoverageAfter_def Let_def existsSync_def read_raw parse)
  next
    case (Some n)
    with existing obtain b' where n: "n = File b'"
      and parsed: "JSON_parse_cm L (utf8_decode L b') = Some existing"
      by (cases n) (auto simp: existingCoverage_def)
    have "readFile L (fs w) (canonicalArtifact L opts name) = Inr (utf8_decode L b')"
      using Some n by (simp add: readFile_def readBytes_def)
    with Some raw parsed gen show ?thesis
      by (simp add: v8CoverageAfter_def Let_def existsSync_def read_raw parse)
  qed
  then show ?thesis by blast
qed

theorem unreadable_built_file_raises_witness:
  "gone_js \<in> set [gone_js, index_js] \<and>
   readFile demo_libs (fs gone_world) ''/code/dist/assets/gone.js'' =
     Inl (ENOENT ''/code/dist/assets/gone.js'') \<and>
   readFile demo_libs (fs gone_world) ''/code/dist/assets/index.js'' = Inr ''console.log(1)'' \<and>
   fst (v8CoverageAfter demo_libs demo_opts ''App.cy.ts'' gone_world) =
     Inl (ENOENT ''/code/dist/assets/gone.js'') \<and>
   fs (snd (v8CoverageAfter demo_libs demo_opts ''App.cy.ts'' gone_world)) = fs gone_world \<and>
   fs gone_world ''/code/cypress-coverage/App.cy.ts.json'' = None"
proof -
  have raw: "fs gone_world (rawArtifact demo_libs demo_opts ''App.cy.ts'') =
      Some (File ''http://localhost:5173/assets/gone.js;http://localhost:5173/assets/index.js;'')"
    by code_simp
  have parse: "JSON_parse_cov demo_libs (utf8_decode demo_libs
      ''http://localhost:5173/assets/gone.js;http://localhost:5173/assets/index.js;'') =
      Some \<lparr>result = [gone_js, index_js]\<rparr>"
    by code_simp
  have existing: "existingCoverage demo_libs (fs gone_world)
                    (canonicalArtifact demo_libs demo_opts ''App.cy.ts'') = Some []"
    by code_simp
  have script: "gone_js \<in> set (result \<lparr>result = [gone_js, index_js]\<rparr>)"
    by simp
  have pathname: "URL_pathname demo_libs (url gone_js) = Some ''/assets/gone.js''"
    by code_simp
  have unreadable: "readFile demo_libs (fs gone_world)
                      (path_resolve demo_libs [buildDir demo_opts @ ''/assets/gone.js'']) =
                    Inl (ENOENT ''/code/dist/assets/gone.js'')"
    by code_simp
  from unreadable_built_file_raises [OF raw parse existing script pathname unreadable]
  obtain e' log where
    run: "v8CoverageAfter demo_libs demo_opts ''App.cy.ts'' gone_world =
            (Inl e', gone_world\<lparr>console := console gone_world @ log\<rparr>)"
    by blast
  then have same: "fs (snd (v8CoverageAfter demo_libs demo_opts ''App.cy.ts'' gone_world)) =
                   fs gone_world"
    by simp
  have raised: "fst (v8CoverageAfter demo_libs demo_opts ''App.cy.ts'' gone_world) =
                  Inl (ENOENT ''/code/dist/assets/gone.js'')"
    by code_simp
  have absent: "readFile demo_libs (fs gone_world) ''/code/dist/assets/gone.js'' =
                  Inl (ENOENT ''/code/dist/assets/gone.js'')"
    and present: "readFile demo_libs (fs gone_world) ''/code/dist/assets/index.js'' =
                  Inr ''console.log(1)''"
    and nothing_written: "fs gone_world ''/code/cypress-coverage/App.cy.ts.json'' = None"
    by code_simp+
  from same raised absent present nothing_written show ?thesis by simp
qed

subsection \<open>Untested files\<close>

lemma emptyReports:
  assumes "promise_all (map (emptyReport L F) files) = Inr coverages"
  shows "map url (concat (map result coverages)) = files \<and>
         (\<forall>s \<in> set (concat (map result coverages)).
            \<exists>b. F (url s) = Some (File b) \<and>
                s = emptyReportCoverage (url s) (utf8_decode L b))"
  using assms
proof (induction files arbitrary: coverages)
  case Nil
  then show ?case by simp
next
  case (Cons p ps)
  from Cons.prems obtain c cs where c: "emptyReport L F p = Inr c"
    and cs: "promise_all (map (emptyReport L F) ps) = Inr cs"
    and coverages: "coverages = c # cs"
    by (cases "emptyReport L F p"; cases "promise_all (map (emptyReport L F) ps)") auto
  from c obtain b where b: "F p = Some (File b)"
    and c_def: "c = \<lparr>result = [emptyReportCoverage p (utf8_decode L b)]\<rparr>"
    by (auto simp: emptyReport_def readFile_def readBytes_def
        split: sum.splits option.splits node.splits)
  have "url (emptyReportCoverage p (utf8_decode L b)) = p"
    by (simp add: emptyReportCoverage_def)
  with Cons.IH [OF cs] b c_def coverages show ?case
    by auto
qed

lemma filter_distinct_key:
  "distinct (map f xs) \<Longrightarrow> x \<in> set xs \<Longrightarrow> filter (\<lambda>y. f y = f x) xs = [x]"
proof (induction xs)
  case Nil
  then show ?case by simp
next
  case (Cons a xs)
  show ?case
  proof (cases "a = x")
    case True
    with Cons.prems have "\<forall>y \<in> set xs. f y \<noteq> f x" by (auto simp: image_iff)
    then have "filter (\<lambda>y. f y = f x) xs = []" by (simp add: filter_empty_conv)
    with True show ?thesis by simp
  next
    case False
    with Cons.prems have "x \<in> set xs" and "f a \<noteq> f x" by auto
    with Cons show ?thesis by simp
  qed
qed

lemma demo_merge_keeps_whole_file_records: "merge_keeps_whole_file_records demo_libs"
  by (simp add: merge_keeps_whole_file_records_def demo_libs_def)







text \<open>
  C7, amended. For every file that \<open>fg\<close> lists and that is not among the tested files,
  the result of \<open>getUntestedFileCoverage\<close> holds exactly one record whose \<open>url\<close> is the
  absolute path of the file, with exactly one function, named \<open>(empty-report)\<close> and flagged
  as block coverage, of exactly one range, from offset 0 to the length of the text of the
  file (its number of code units after UTF-8 decoding) with count 0. This is for a
  \<open>mergeProcessCovs\<close> that returns whole-file records of distinct URLs as they are.
\<close>

theorem untested_file_record:
  assumes run: "getUntestedFileCoverage L opts F testedFiles = Inr untested"
    and dist: "distinct (allFiles L opts F)"
    and merge: "merge_keeps_whole_file_records L"
    and listed: "file \<in> set (allFiles L opts F)"
    and fresh: "file \<notin> set testedFiles"
  shows "\<exists>b script.
           F file = Some (File b) \<and>
           filter (\<lambda>s. url s = file) (result untested) = [script] \<and>
           url script = file \<and>
           functions_cov script =
             [\<lparr>functionName = ''(empty-report)'',
               ranges = [\<lparr>startOffset = 0, endOffset = length (utf8_decode L b), count = 0\<rparr>],
               isBlockCoverage = True\<rparr>]"
proof -
  define untestedFiles where
    "untestedFiles = filter (\<lambda>file. file \<notin> set testedFiles) (allFiles L opts F)"
  from run obtain coverages where
    all: "promise_all (map (emptyReport L F) untestedFiles) = Inr coverages"
    and out: "untested = mergeProcessCovs L (\<lparr>result = []\<rparr> # coverages)"
    by (auto simp: getUntestedFileCoverage_def Let_def untestedFiles_def split: sum.splits)
  let ?scripts = "concat (map result (\<lparr>result = []\<rparr> # coverages))"
  from emptyReports [OF all]
  have urls: "map url ?scripts = untestedFiles"
    and shape: "\<forall>s \<in> set ?scripts.
                  \<exists>b. F (url s) = Some (File b) \<and>
                      s = emptyReportCoverage (url s) (utf8_decode L b)"
    by simp_all
  have "distinct untestedFiles"
    using dist by (simp add: untestedFiles_def)
  with urls have d: "distinct (map url ?scripts)" by simp
  have o: "\<forall>s \<in> set ?scripts. one_range s"
  proof
    fix s assume "s \<in> set ?scripts"
    with shape obtain b where "s = emptyReportCoverage (url s) (utf8_decode L b)" by blast
    then have "functions_cov s =
            [\<lparr>functionName = ''(empty-report)'',
               ranges = [\<lparr>startOffset = 0, endOffset = length (utf8_decode L b), count = 0\<rparr>],
               isBlockCoverage = True\<rparr>]"
      by (metis ScriptCoverage.select_convs(3) emptyReportCoverage_def)
    then show "one_range s" by (simp add: one_range_def)
  qed
  from merge d o
  have kept: "distinct (map url (result untested))"
    and same: "(\<lambda>s. (url s, functions_cov s)) ` set (result untested) =
               (\<lambda>s. (url s, functions_cov s)) ` set ?scripts"
    unfolding merge_keeps_whole_file_records_def out by blast+
  from listed fresh have "file \<in> set untestedFiles"
    by (simp add: untestedFiles_def)
  with urls obtain s0 where s0: "s0 \<in> set ?scripts" and url0: "url s0 = file"
    by (metis (no_types, lifting) imageE list.set_map)
  from shape s0 url0 obtain b where b: "F file = Some (File b)"
    and s0_def: "s0 = emptyReportCoverage file (utf8_decode L b)"
    by metis
  from s0 have "(url s0, functions_cov s0) \<in> (\<lambda>s. (url s, functions_cov s)) ` set ?scripts"
    by blast
  with same obtain script where script: "script \<in> set (result untested)"
    and eq: "(url script, functions_cov script) = (url s0, functions_cov s0)"
    by (metis (no_types, lifting) imageE)
  from eq url0 have u: "url script = file" by simp
  from eq s0_def have f: "functions_cov script =
             [\<lparr>functionName = ''(empty-report)'',
               ranges = [\<lparr>startOffset = 0, endOffset = length (utf8_decode L b), count = 0\<rparr>],
               isBlockCoverage = True\<rparr>]"
    by (simp add: emptyReportCoverage_def)
  from filter_distinct_key [OF kept script] u
  have "filter (\<lambda>s. url s = file) (result untested) = [script]" by simp
  with b u f show ?thesis by blast
qed

theorem untested_file_record_witness:
  "\<exists>b script.
     demo_fs ''/code/src/Unused.tsx'' = Some (File b) \<and>
     filter (\<lambda>s. url s = ''/code/src/Unused.tsx'')
       (result \<lparr>result = [emptyReportCoverage ''/code/src/Unused.tsx'' ''export const u = 0'']\<rparr>) =
       [script] \<and>
     url script = ''/code/src/Unused.tsx'' \<and>
     functions_cov script =
       [\<lparr>functionName = ''(empty-report)'',
         ranges = [\<lparr>startOffset = 0, endOffset = length (utf8_decode demo_libs b),
                    count = 0\<rparr>],
         isBlockCoverage = True\<rparr>]"
proof -
  have run: "getUntestedFileCoverage demo_libs demo_opts demo_fs [''/code/src/App.tsx''] =
               Inr \<lparr>result = [emptyReportCoverage ''/code/src/Unused.tsx'' ''export const u = 0'']\<rparr>"
    by code_simp
  have dist: "distinct (allFiles demo_libs demo_opts demo_fs)"
    by code_simp
  have listed: "''/code/src/Unused.tsx'' \<in> set (allFiles demo_libs demo_opts demo_fs)"
    by code_simp
  have fresh: "''/code/src/Unused.tsx'' \<notin> set [''/code/src/App.tsx'']"
    by simp
  show ?thesis
    by (rule untested_file_record
        [OF run dist demo_merge_keeps_whole_file_records listed fresh])
qed

text \<open>
  C7 as stated, with the range ending at the byte length of the file, fails on a file of
  five bytes that decode to four code units: the range ends at 4.
\<close>

theorem endOffset_is_not_byte_length:
  "readBytes cafe_fs ''/code/src/Cafe.ts'' =
     Inr [CHR ''c'', CHR ''a'', CHR ''f'', CHR 0xC3, CHR 0xA9] \<and>
   length [CHR ''c'', CHR ''a'', CHR ''f'', CHR 0xC3, CHR 0xA9] = 5 \<and>
   getUntestedFileCoverage demo_libs demo_opts cafe_fs [] =
     Inr \<lparr>result =
       [\<lparr>scriptId = ''0'', url = ''/code/src/Cafe.ts'',
         functions_cov =
           [\<lparr>functionName = ''(empty-report)'',
             ranges = [\<lparr>startOffset = 0, endOffset = 4, count = 0\<rparr>],
             isBlockCoverage = True\<rparr>]\<rparr>]\<rparr>"
  by code_simp




end
